theory Spec2Isabelle
  imports Complex_Main "HOL-Library.Sublist" "HOL-Library.Multiset"
begin

section \<open>JavaScript values used by the dashboards\<close>

text \<open>
  JavaScript strings are modelled as HOL strings and JavaScript numbers as exact reals
  (the rounding of IEEE doubles is outside the model). A value that may be
  \<open>undefined\<close> or \<open>null\<close> is an \<open>option\<close>. Truthiness follows the language: the
  empty string, \<open>undefined\<close>, \<open>null\<close> and the number \<open>0\<close> are falsy, every array
  and every object is truthy.
\<close>

definition truthy :: "string \<Rightarrow> bool" where
  "truthy s = (s \<noteq> [])"

definition truthy_opt :: "string option \<Rightarrow> bool" where
  "truthy_opt v = (case v of None \<Rightarrow> False | Some s \<Rightarrow> truthy s)"

text \<open>\<open>a || b\<close> on a possibly missing string \<open>a\<close> and a string \<open>b\<close>.\<close>

definition or_else :: "string option \<Rightarrow> string \<Rightarrow> string" where
  "or_else v d = (case v of None \<Rightarrow> d | Some s \<Rightarrow> if truthy s then s else d)"

text \<open>
  A template literal prints a missing value as the word \<open>undefined\<close>. (A JSON
  \<open>null\<close>, which would print as \<open>null\<close>, is not told apart from a missing value.)
\<close>

definition interpolate :: "string option \<Rightarrow> string" where
  "interpolate v = (case v of None \<Rightarrow> ''undefined'' | Some s \<Rightarrow> s)"

definition upper_letters :: string where
  "upper_letters = ''ABCDEFGHIJKLMNOPQRSTUVWXYZ''"

definition lower_letters :: string where
  "lower_letters = ''abcdefghijklmnopqrstuvwxyz''"

text \<open>
  \<open>toLowerCase\<close> and \<open>toUpperCase\<close> on the ASCII letters; every other character is
  left as it is (the case mapping of characters outside ASCII is not modelled).
\<close>

definition toLowerCase :: "string \<Rightarrow> string" where
  "toLowerCase s =
     map (\<lambda>c. case map_of (zip upper_letters lower_letters) c of
                 None \<Rightarrow> c | Some d \<Rightarrow> d) s"

definition toUpperCase :: "string \<Rightarrow> string" where
  "toUpperCase s =
     map (\<lambda>c. case map_of (zip lower_letters upper_letters) c of
                 None \<Rightarrow> c | Some d \<Rightarrow> d) s"

text \<open>\<open>s.includes(sub)\<close>: \<open>sub\<close> occurs in \<open>s\<close> as a contiguous run.\<close>

fun str_includes :: "string \<Rightarrow> string \<Rightarrow> bool" where
  "str_includes [] sub = (sub = [])"
| "str_includes (c # cs) sub = (if prefix sub (c # cs) then True else str_includes cs sub)"

text \<open>\<open>parts.join(sep)\<close>.\<close>

fun join :: "string \<Rightarrow> string list \<Rightarrow> string" where
  "join sep [] = []"
| "join sep [x] = x"
| "join sep (x # y # ys) = x @ sep @ join sep (y # ys)"

section \<open>The conversation list and the filter engine (page.tsx)\<close>

record conversation =
  agent_id :: string
  agent_name :: string
  conversation_id :: string
  start_time_unix_secs :: real
  call_duration_secs :: real
  message_count :: real
  status :: string
  call_successful :: string
  transcript_summary :: "string option"
  call_summary_title :: "string option"

datatype view_mode = ViewLast | ViewAll

text \<open>
  The part of the component state that \<open>applyFilters\<close>, \<open>fetchConversations\<close> and
  \<open>deleteConversation\<close> read and write.
\<close>

record dashboard =
  conversations :: "conversation list"
  filteredConversations :: "conversation list"
  viewMode :: view_mode
  loading :: bool
  error :: "string option"
  searchTerm :: string
  statusFilter :: string
  agentFilter :: string
  successFilter :: string
  dateFilter :: string

text \<open>
  The search predicate: \<open>conv.call_summary_title?.toLowerCase().includes(t) ||
  conv.agent_name.toLowerCase().includes(t)\<close>, with \<open>t\<close> the lower-cased search term.
  A \<open>null\<close> title makes the first disjunct \<open>undefined\<close>, which is falsy.
\<close>

definition matchesSearch :: "string \<Rightarrow> conversation \<Rightarrow> bool" where
  "matchesSearch term conv =
     (if (case call_summary_title conv of
            None \<Rightarrow> False
          | Some title \<Rightarrow> str_includes (toLowerCase title) (toLowerCase term))
      then True
      else str_includes (toLowerCase (agent_name conv)) (toLowerCase term))"

text \<open>
  The value of \<open>{'today': ..., 'week': ..., 'month': ...}[dateFilter]\<close>: a number for
  the three own keys, a function or object inherited from \<open>Object.prototype\<close> for its
  property names, and \<open>undefined\<close> for every other string.
\<close>

datatype lookup = Number real | Inherited | Undefined

definition object_prototype_keys :: "string list" where
  "object_prototype_keys =
     [''constructor'', ''hasOwnProperty'', ''isPrototypeOf'', ''propertyIsEnumerable'',
      ''toLocaleString'', ''toString'', ''valueOf'', ''__proto__'',
      ''__defineGetter__'', ''__defineSetter__'', ''__lookupGetter__'',
      ''__lookupSetter__'']"

definition cutoffOf :: "real \<Rightarrow> string \<Rightarrow> lookup" where
  "cutoffOf now key =
     (if key = ''today'' then Number (now - 24 * 60 * 60)
      else if key = ''week'' then Number (now - 7 * 24 * 60 * 60)
      else if key = ''month'' then Number (now - 30 * 24 * 60 * 60)
      else if key \<in> set object_prototype_keys then Inherited
      else Undefined)"

text \<open>
  The date step. \<open>now\<close> is \<open>Date.now() / 1000\<close>. The guard \<open>if (cutoff)\<close> is
  JavaScript truthiness: \<open>undefined\<close> and the number \<open>0\<close> skip the filter. An
  inherited function or object is truthy, and \<open>number >= object\<close> compares with
  \<open>NaN\<close>, which is false for every conversation. The cutoff and the comparison
  are exact here and in doubles in the code; the two agree on start times that are
  whole seconds.
\<close>

definition dateStep :: "real \<Rightarrow> string \<Rightarrow> conversation list \<Rightarrow> conversation list" where
  "dateStep now key filtered =
     (if key \<noteq> ''all'' then
        (case cutoffOf now key of
           Number cutoff \<Rightarrow>
             if cutoff \<noteq> 0
             then filter (\<lambda>conv. start_time_unix_secs conv \<ge> cutoff) filtered
             else filtered
         | Inherited \<Rightarrow> filter (\<lambda>conv. False) filtered
         | Undefined \<Rightarrow> filtered)
      else filtered)"

definition searchStep :: "string \<Rightarrow> conversation list \<Rightarrow> conversation list" where
  "searchStep term filtered =
     (if truthy term then filter (matchesSearch term) filtered else filtered)"

definition statusStep :: "string \<Rightarrow> conversation list \<Rightarrow> conversation list" where
  "statusStep sel filtered =
     (if sel \<noteq> ''all'' then filter (\<lambda>conv. status conv = sel) filtered else filtered)"

definition agentStep :: "string \<Rightarrow> conversation list \<Rightarrow> conversation list" where
  "agentStep sel filtered =
     (if sel \<noteq> ''all'' then filter (\<lambda>conv. agent_name conv = sel) filtered
      else filtered)"

definition successStep :: "string \<Rightarrow> conversation list \<Rightarrow> conversation list" where
  "successStep sel filtered =
     (if sel \<noteq> ''all'' then filter (\<lambda>conv. call_successful conv = sel) filtered
      else filtered)"

text \<open>
  \<open>applyFilters\<close>. Its inputs are the component state and the clock: \<open>nowMs\<close> is the
  value \<open>Date.now()\<close> returns (milliseconds, an integer), read by the date step only.
  The result is stored with \<open>setFilteredConversations\<close>.
\<close>

definition applyFilters :: "int \<Rightarrow> dashboard \<Rightarrow> dashboard" where
  "applyFilters nowMs st =
     st\<lparr>filteredConversations :=
          (if viewMode st = ViewLast then
             (case conversations st of [] \<Rightarrow> [] | first # _ \<Rightarrow> [first])
           else
             dateStep (real_of_int nowMs / 1000) (dateFilter st)
               (successStep (successFilter st)
                 (agentStep (agentFilter st)
                   (statusStep (statusFilter st)
                     (searchStep (searchTerm st) (conversations st))))))\<rparr>"

text \<open>
  What a \<open>fetch\<close> gives back: the promise rejects (with an error message), or a
  response arrives with a status and a body, whose \<open>json()\<close> either rejects (\<open>Inl\<close>,
  with the message) or yields the parsed value.
\<close>

datatype 'a fetched = Rejected string | Responded nat "string + 'a"

definition ok :: "nat \<Rightarrow> bool" where
  "ok code = (200 \<le> code \<and> code \<le> 299)"

text \<open>
  \<open>fetchConversations\<close>: the list is sorted by start time, latest first
  (\<open>Array.prototype.sort\<close> is stable), and stored both as the authoritative and as the
  displayed list; any failure stores the error message instead. Either way the
  \<open>finally\<close> block clears \<open>loading\<close>.
\<close>

definition sortedConversations :: "conversation list \<Rightarrow> conversation list" where
  "sortedConversations cs = sort_key (\<lambda>c. - start_time_unix_secs c) cs"

definition fetchConversations :: "conversation list fetched \<Rightarrow> dashboard \<Rightarrow> dashboard" where
  "fetchConversations response st =
     (case response of
        Rejected msg \<Rightarrow> st\<lparr>error := Some msg, loading := False\<rparr>
      | Responded code body \<Rightarrow>
          if \<not> ok code
          then st\<lparr>error := Some ''Failed to fetch conversations'', loading := False\<rparr>
          else (case body of
                  Inl msg \<Rightarrow> st\<lparr>error := Some msg, loading := False\<rparr>
                | Inr cs \<Rightarrow>
                    st\<lparr>conversations := sortedConversations cs,
                       filteredConversations := sortedConversations cs,
                       loading := False\<rparr>))"

text \<open>
  \<open>deleteConversation\<close>: after the DELETE request, an ok response removes the
  conversation from both lists by identifier; a response that is not ok, or a rejected
  request, leaves the state as it is.
\<close>

definition withoutId :: "string \<Rightarrow> conversation list \<Rightarrow> conversation list" where
  "withoutId conversationId prev =
     filter (\<lambda>conv. conversation_id conv \<noteq> conversationId) prev"

definition deleteConversation :: "unit fetched \<Rightarrow> string \<Rightarrow> dashboard \<Rightarrow> dashboard" where
  "deleteConversation response conversationId st =
     (case response of
        Rejected msg \<Rightarrow> st
      | Responded code body \<Rightarrow>
          if ok code
          then st\<lparr>conversations := withoutId conversationId (conversations st),
                  filteredConversations :=
                    withoutId conversationId (filteredConversations st)\<rparr>
          else st)"

subsection \<open>The life of the component\<close>

text \<open>
  The state as \<open>useState\<close> initialises it, \<open>clearFilters\<close>, and the events that
  change the state afterwards: the load on mount, a delete, the filter effect (with
  the clock value it reads), and the setters behind the controls. The conversation
  list is written by \<open>fetchConversations\<close> and \<open>deleteConversation\<close> only.
\<close>

definition initial :: dashboard where
  "initial =
     \<lparr>conversations = [], filteredConversations = [], viewMode = ViewLast,
      loading = True, error = None, searchTerm = [], statusFilter = ''all'',
      agentFilter = ''all'', successFilter = ''all'', dateFilter = ''all''\<rparr>"

definition clearFilters :: "dashboard \<Rightarrow> dashboard" where
  "clearFilters st =
     st\<lparr>searchTerm := [], statusFilter := ''all'', agentFilter := ''all'',
        successFilter := ''all'', dateFilter := ''all''\<rparr>"

datatype event =
    FetchConversations "conversation list fetched"
  | DeleteConversation "unit fetched" string
  | ApplyFilters int
  | ClearFilters
  | SetViewMode view_mode
  | SetSearchTerm string
  | SetStatusFilter string
  | SetAgentFilter string
  | SetSuccessFilter string
  | SetDateFilter string

fun step :: "dashboard \<Rightarrow> event \<Rightarrow> dashboard" where
  "step st (FetchConversations response) = fetchConversations response st"
| "step st (DeleteConversation response conversationId) =
     deleteConversation response conversationId st"
| "step st (ApplyFilters nowMs) = applyFilters nowMs st"
| "step st ClearFilters = clearFilters st"
| "step st (SetViewMode mode) = st\<lparr>viewMode := mode\<rparr>"
| "step st (SetSearchTerm term) = st\<lparr>searchTerm := term\<rparr>"
| "step st (SetStatusFilter sel) = st\<lparr>statusFilter := sel\<rparr>"
| "step st (SetAgentFilter sel) = st\<lparr>agentFilter := sel\<rparr>"
| "step st (SetSuccessFilter sel) = st\<lparr>successFilter := sel\<rparr>"
| "step st (SetDateFilter sel) = st\<lparr>dateFilter := sel\<rparr>"

definition run :: "event list \<Rightarrow> dashboard" where
  "run events = foldl step initial events"

section \<open>The server endpoints\<close>

text \<open>
  An endpoint is a function of the process environment, the request body and what the
  services it calls answer. It returns its JSON reply together with the outbound
  requests it has issued, in order. Every exception thrown inside the handler's \<open>try\<close>
  block ends in the same \<open>catch\<close>, which logs it and replies with a fixed message.
\<close>

record env =
  GEMINI_API_KEY :: "string option"
  MAILGUN_API_KEY :: "string option"
  EMAIL_RECIPIENTS :: "string option"
  EMAIL_SUBJECT :: "string option"
  NEXT_PUBLIC_BASE_URL :: "string option"

record turn =
  role :: string
  message :: string

text \<open>
  The \<open>transcript\<close> field of a request body: missing (or another falsy value), an
  array of turns (truthy even when empty), or a truthy value on which the formatting
  throws (not an array, or a turn without a string \<open>role\<close>).
\<close>

datatype transcript_field = NoTranscript | Turns "turn list" | Malformed

datatype part = Part (part_text: "string option")

datatype content = Content (parts: "part list option")

datatype candidate = Candidate (content: "content option")

datatype gemini_data = GeminiData (candidates: "candidate list option")

record generationConfig =
  temperature :: real
  topK :: nat
  topP :: real
  maxOutputTokens :: nat

record form =
  form_from :: string
  form_to :: string
  form_subject :: string
  form_text :: string

text \<open>
  The outbound requests. A Mailgun request carries the credentials \<open>api:<key>\<close> that
  the handler sends base64-encoded in its \<open>Authorization: Basic\<close> header.
\<close>

datatype outbound =
    GeminiRequest string string "generationConfig option"
  | ConversationRequest string
  | SummaryRequest string transcript_field
  | MailgunRequest string string form

datatype body =
    ErrorBody string
  | AnswerBody string
  | SummaryBody string
  | AnalysisBody "string option"
  | AgendaSent string string
  | SpaceFactSent string string

datatype reply = Reply nat body

text \<open>
  \<open>await fetch(...)\<close>, \<open>if (!response.ok) throw\<close>, \<open>await response.json()\<close>:
  the parsed body, or \<open>None\<close> when one of the three throws.
\<close>

definition okJson :: "'a fetched \<Rightarrow> 'a option" where
  "okJson response =
     (case response of
        Rejected msg \<Rightarrow> None
      | Responded code payload \<Rightarrow>
          if ok code then (case payload of Inl msg \<Rightarrow> None | Inr v \<Rightarrow> Some v)
          else None)"

text \<open>The same without reading the body.\<close>

definition okResponse :: "'a fetched \<Rightarrow> bool" where
  "okResponse response =
     (case response of Rejected msg \<Rightarrow> False | Responded code payload \<Rightarrow> ok code)"

text \<open>\<open>data.candidates?.[0]?.content?.parts?.[0]?.text\<close>.\<close>

definition firstText :: "gemini_data \<Rightarrow> string option" where
  "firstText data =
     (case candidates data of
        None \<Rightarrow> None
      | Some [] \<Rightarrow> None
      | Some (c # _) \<Rightarrow>
          (case content c of
             None \<Rightarrow> None
           | Some ct \<Rightarrow>
               (case parts ct of
                  None \<Rightarrow> None
                | Some [] \<Rightarrow> None
                | Some (p # _) \<Rightarrow> part_text p)))"

text \<open>
  \<open>result.candidates[0].content.parts[0].text\<close>, without optional chaining: reading
  a property of \<open>undefined\<close> throws a TypeError (\<open>None\<close>); a first part without
  \<open>text\<close> yields \<open>undefined\<close> (\<open>Some None\<close>).
\<close>

definition strictText :: "gemini_data \<Rightarrow> string option option" where
  "strictText data =
     (case candidates data of
        None \<Rightarrow> None
      | Some [] \<Rightarrow> None
      | Some (c # _) \<Rightarrow>
          (case content c of
             None \<Rightarrow> None
           | Some ct \<Rightarrow>
               (case parts ct of
                  None \<Rightarrow> None
                | Some [] \<Rightarrow> None
                | Some (p # _) \<Rightarrow> Some (part_text p))))"

definition formatTranscript :: "turn list \<Rightarrow> string" where
  "formatTranscript turns =
     join ''\<newline>\<newline>''
       (map (\<lambda>turn. toUpperCase (role turn) @ '': '' @ message turn) turns)"

definition geminiUrl :: "string \<Rightarrow> string option \<Rightarrow> string" where
  "geminiUrl model apiKey =
     ''https://generativelanguage.googleapis.com/v1beta/models/'' @ model @
     '':generateContent?key='' @ interpolate apiKey"

subsection \<open>POST /api/analyze\<close>

record analyze_request =
  transcript :: transcript_field
  question :: "string option"

definition analyzePrompt :: "turn list \<Rightarrow> string \<Rightarrow> string" where
  "analyzePrompt turns asked =
     ''Based on the following conversation transcript, please answer the user's question accurately and concisely.\<newline>\<newline>TRANSCRIPT:\<newline>''
     @ formatTranscript turns
     @ ''\<newline>\<newline>QUESTION: '' @ asked
     @ ''\<newline>\<newline>Please provide a helpful answer based only on the information available in the transcript above.''"

definition analyzeFailed :: reply where
  "analyzeFailed = Reply 500 (ErrorBody ''Failed to analyze transcript'')"

definition analyze_POST ::
  "env \<Rightarrow> analyze_request option \<Rightarrow> gemini_data fetched \<Rightarrow> reply \<times> outbound list" where
  "analyze_POST e request provider =
     (if \<not> truthy_opt (GEMINI_API_KEY e)
      then (Reply 500 (ErrorBody ''Gemini API key not configured''), [])
      else
        (case request of
           None \<Rightarrow> (analyzeFailed, [])
         | Some req \<Rightarrow>
             if transcript req = NoTranscript \<or> \<not> truthy_opt (question req)
             then (Reply 400 (ErrorBody ''Transcript and question are required''), [])
             else
               (case transcript req of
                  NoTranscript \<Rightarrow>
                    (Reply 400 (ErrorBody ''Transcript and question are required''), [])
                | Malformed \<Rightarrow> (analyzeFailed, [])
                | Turns ts \<Rightarrow>
                    let call = GeminiRequest
                          (geminiUrl ''gemini-1.5-flash-latest'' (GEMINI_API_KEY e))
                          (analyzePrompt ts (interpolate (question req)))
                          (Some \<lparr>temperature = 0.7, topK = 40, topP = 0.95,
                                  maxOutputTokens = 1024\<rparr>)
                    in (case okJson provider of
                          None \<Rightarrow> (analyzeFailed, [call])
                        | Some data \<Rightarrow>
                            (Reply 200
                               (AnswerBody (or_else (firstText data) ''No answer generated'')),
                             [call])))))"

subsection \<open>POST /api/generate-summary\<close>

record summary_request =
  summary_transcript :: transcript_field

text \<open>The prompt of \<open>generate-summary/route.ts\<close>: three numbered takeaways.\<close>

definition takeawaysPrompt :: "turn list \<Rightarrow> string" where
  "takeawaysPrompt turns =
     ''Based on the following conversation transcript, please generate exactly 3 main takeaways from this conversation. Format your response as a simple numbered list.\<newline>\<newline>TRANSCRIPT:\<newline>''
     @ formatTranscript turns
     @ ''\<newline>\<newline>Please provide exactly 3 main takeaways in this format:\<newline>1. [First main takeaway]\<newline>2. [Second main takeaway] \<newline>3. [Third main takeaway]\<newline>\<newline>Keep each takeaway concise but informative, focusing on the most important points, decisions, or insights from the conversation.''"

text \<open>The prompt of the other dashboard's copy of the route: Issue, Goal, Next Steps.\<close>

definition sectionsPrompt :: "turn list \<Rightarrow> string" where
  "sectionsPrompt turns =
     ''Based on the following conversation transcript, please analyze and structure the key insights into three specific categories. \<newline>\<newline>TRANSCRIPT:\<newline>''
     @ formatTranscript turns
     @ ''\<newline>\<newline>Please provide your analysis in this exact format:\<newline>\<newline>**Issue:** [Identify the main problem, challenge, or concern discussed in the conversation]\<newline>\<newline>**Goal:** [Define the primary objective, desired outcome, or what needs to be achieved]\<newline>\<newline>**Next Steps:** [Outline the specific actions, decisions, or follow-up items that should happen next]\<newline>\<newline>Keep each section concise but actionable, focusing on the most important aspects from the conversation.''"

definition summaryFailed :: reply where
  "summaryFailed = Reply 500 (ErrorBody ''Failed to generate summary'')"

text \<open>The two copies of the handler differ in the prompt only.\<close>

definition summary_handler ::
  "(turn list \<Rightarrow> string) \<Rightarrow> env \<Rightarrow> summary_request option \<Rightarrow> gemini_data fetched
     \<Rightarrow> reply \<times> outbound list" where
  "summary_handler promptOf e request provider =
     (if \<not> truthy_opt (GEMINI_API_KEY e)
      then (Reply 500 (ErrorBody ''Gemini API key not configured''), [])
      else
        (case request of
           None \<Rightarrow> (summaryFailed, [])
         | Some req \<Rightarrow>
             (case summary_transcript req of
                NoTranscript \<Rightarrow> (Reply 400 (ErrorBody ''Transcript is required''), [])
              | Malformed \<Rightarrow> (summaryFailed, [])
              | Turns ts \<Rightarrow>
                  let call = GeminiRequest
                        (geminiUrl ''gemini-1.5-flash-latest'' (GEMINI_API_KEY e))
                        (promptOf ts)
                        (Some \<lparr>temperature = 0.7, topK = 40, topP = 0.95,
                                maxOutputTokens = 512\<rparr>)
                  in (case okJson provider of
                        None \<Rightarrow> (summaryFailed, [call])
                      | Some data \<Rightarrow>
                          (Reply 200
                             (SummaryBody (or_else (firstText data) ''No summary generated'')),
                           [call])))))"

definition generate_summary_POST ::
  "env \<Rightarrow> summary_request option \<Rightarrow> gemini_data fetched \<Rightarrow> reply \<times> outbound list" where
  "generate_summary_POST = summary_handler takeawaysPrompt"

definition generate_summary_sections_POST ::
  "env \<Rightarrow> summary_request option \<Rightarrow> gemini_data fetched \<Rightarrow> reply \<times> outbound list" where
  "generate_summary_sections_POST = summary_handler sectionsPrompt"

subsection \<open>POST /api/gemini-template\<close>

record template_request =
  discussionContent :: "string option"

definition templatePrompt :: "string \<Rightarrow> string" where
  "templatePrompt discussion =
     ''Please analyze and provide additional insights for this One-on-One Prep Discussion:\<newline>\<newline>''
     @ discussion
     @ ''\<newline>\<newline>Provide detailed next steps, potential challenges, and recommendations for implementation. Format your response in a structured way with clear sections.''"

definition templateFailed :: reply where
  "templateFailed = Reply 500 (ErrorBody ''Failed to generate template'')"

text \<open>
  This handler reads the request body before it looks at the environment, sends no
  generation parameters, and reads the first candidate without optional chaining.
\<close>

definition gemini_template_POST ::
  "env \<Rightarrow> template_request option \<Rightarrow> gemini_data fetched \<Rightarrow> reply \<times> outbound list" where
  "gemini_template_POST e request provider =
     (case request of
        None \<Rightarrow> (templateFailed, [])
      | Some req \<Rightarrow>
          if \<not> truthy_opt (discussionContent req)
          then (Reply 400 (ErrorBody ''Discussion content is required''), [])
          else if \<not> truthy_opt (GEMINI_API_KEY e)
          then (Reply 500 (ErrorBody ''Gemini API key not configured''), [])
          else
            let call = GeminiRequest
                  (geminiUrl ''gemini-1.5-flash'' (GEMINI_API_KEY e))
                  (templatePrompt (interpolate (discussionContent req)))
                  None
            in (case okJson provider of
                  None \<Rightarrow> (templateFailed, [call])
                | Some result \<Rightarrow>
                    (case strictText result of
                       None \<Rightarrow> (templateFailed, [call])
                     | Some geminiResponse \<Rightarrow>
                         (Reply 200 (AnalysisBody geminiResponse), [call]))))"

subsection \<open>POST /api/space-fact-email (both dashboards)\<close>

record email_request =
  conversationId :: "string option"
  recipient :: "string option"

definition mailgunUrl :: string where
  "mailgunUrl = ''https://api.mailgun.net/v3/ai.complete.city/messages''"

definition configMissing :: reply where
  "configMissing =
     Reply 500 (ErrorBody ''Required API keys or email configuration not found'')"

text \<open>
  The meeting-agenda variant (sasha). \<open>today\<close> is \<open>new Date().toLocaleDateString()\<close>. The
  three services answer the conversation request (with the \<open>transcript\<close> field of the
  details), the summary request (with the \<open>summary\<close> field of its reply) and the
  Mailgun request.
\<close>

definition agendaBody :: "string option \<Rightarrow> string \<Rightarrow> string \<Rightarrow> string" where
  "agendaBody to summary today =
     ''Dear '' @ interpolate to
     @ '',\<newline>\<newline>I hope this email finds you well! Here are some ideas that I wanted to share about talking to you in our meeting:\<newline>\<newline>''
     @ summary
     @ ''\<newline>\<newline>Looking forward to our discussion!\<newline>\<newline>Best regards,\<newline>Sasha\<newline>\<newline>---\<newline>Meeting prep from conversation on ''
     @ today"

definition agendaFailed :: reply where
  "agendaFailed = Reply 500 (ErrorBody ''Failed to send meeting agenda email'')"

definition agenda_email_POST ::
  "env \<Rightarrow> string \<Rightarrow> email_request option \<Rightarrow> transcript_field fetched
     \<Rightarrow> string option fetched \<Rightarrow> unit fetched \<Rightarrow> reply \<times> outbound list" where
  "agenda_email_POST e today request conversationResponse summaryResponse mailgunResponse =
     (if \<not> truthy_opt (GEMINI_API_KEY e) \<or> \<not> truthy_opt (MAILGUN_API_KEY e)
         \<or> \<not> truthy_opt (EMAIL_RECIPIENTS e)
      then (configMissing, [])
      else
        (case request of
           None \<Rightarrow> (agendaFailed, [])
         | Some req \<Rightarrow>
             let base = or_else (NEXT_PUBLIC_BASE_URL e) ''http://localhost:3000'';
                 call1 = ConversationRequest
                   (base @ ''/api/conversations/'' @ interpolate (conversationId req))
             in (case okJson conversationResponse of
                   None \<Rightarrow> (agendaFailed, [call1])
                 | Some details \<Rightarrow>
                     let call2 = SummaryRequest (base @ ''/api/generate-summary'') details
                     in (case okJson summaryResponse of
                           None \<Rightarrow> (agendaFailed, [call1, call2])
                         | Some summaryData \<Rightarrow>
                             let summary = or_else summaryData
                                   ''Unable to generate meeting agenda at this time.'';
                                 emailBody = agendaBody (recipient req) summary today;
                                 to = or_else (recipient req)
                                        (interpolate (EMAIL_RECIPIENTS e));
                                 call3 = MailgunRequest mailgunUrl
                                   (''api:'' @ interpolate (MAILGUN_API_KEY e))
                                   \<lparr>form_from = ''Sasha <arihant@ai.complete.city>'',
                                    form_to = to,
                                    form_subject = ''Agenda for Our Upcoming Meeting'',
                                    form_text = emailBody\<rparr>
                             in if okResponse mailgunResponse
                                then (Reply 200 (AgendaSent summary to),
                                      [call1, call2, call3])
                                else (agendaFailed, [call1, call2, call3])))))"

text \<open>
  The space-fact variant (matei). The handler destructures \<open>conversationId\<close> only;
  \<open>timestamp\<close> is \<open>new Date().toLocaleString()\<close>. The two emoji are written as
  their UTF-8 bytes.
\<close>

definition spaceFactPrompt :: string where
  "spaceFactPrompt =
     ''Generate a fascinating space fact in 2-3 sentences about black holes, galaxies, or space exploration. Make it engaging and educational.''"

definition spaceFactBody :: "string \<Rightarrow> string option \<Rightarrow> string \<Rightarrow> string" where
  "spaceFactBody spaceFact cid timestamp =
     ''Here's your fascinating space fact:\<newline>\<newline>'' @ spaceFact
     @ ''\<newline>\<newline>This email was triggered by a conversation interaction (ID: ''
     @ interpolate cid @ '') at '' @ timestamp
     @ ''.\<newline>\<newline>Sent with love from Arihant's automated system! ''
     @ [CHR 0xF0, CHR 0x9F, CHR 0x9A, CHR 0x80]"

definition defaultSubject :: string where
  "defaultSubject = [CHR 0xF0, CHR 0x9F, CHR 0x8C, CHR 0x8C] @ '' Your Space Fact''"

definition spaceFactFailed :: reply where
  "spaceFactFailed = Reply 500 (ErrorBody ''Failed to send space fact email'')"

definition space_fact_email_POST ::
  "env \<Rightarrow> string \<Rightarrow> email_request option \<Rightarrow> gemini_data fetched \<Rightarrow> unit fetched
     \<Rightarrow> reply \<times> outbound list" where
  "space_fact_email_POST e timestamp request geminiResponse mailgunResponse =
     (if \<not> truthy_opt (GEMINI_API_KEY e) \<or> \<not> truthy_opt (MAILGUN_API_KEY e)
         \<or> \<not> truthy_opt (EMAIL_RECIPIENTS e)
      then (configMissing, [])
      else
        (case request of
           None \<Rightarrow> (spaceFactFailed, [])
         | Some req \<Rightarrow>
             let call1 = GeminiRequest
                   (geminiUrl ''gemini-1.5-flash-latest'' (GEMINI_API_KEY e))
                   spaceFactPrompt
                   (Some \<lparr>temperature = 0.8, topK = 40, topP = 0.95,
                           maxOutputTokens = 200\<rparr>)
             in (case okJson geminiResponse of
                   None \<Rightarrow> (spaceFactFailed, [call1])
                 | Some geminiData \<Rightarrow>
                     let spaceFact = or_else (firstText geminiData)
                           ''The universe is vast and full of wonders!'';
                         emailBody = spaceFactBody spaceFact (conversationId req) timestamp;
                         call2 = MailgunRequest mailgunUrl
                           (''api:'' @ interpolate (MAILGUN_API_KEY e))
                           \<lparr>form_from = ''Arihant's Agent <arihant@ai.complete.city>'',
                            form_to = interpolate (EMAIL_RECIPIENTS e),
                            form_subject = or_else (EMAIL_SUBJECT e) defaultSubject,
                            form_text = emailBody\<rparr>
                     in if okResponse mailgunResponse
                        then (Reply 200
                                (SpaceFactSent spaceFact (interpolate (EMAIL_RECIPIENTS e))),
                              [call1, call2])
                        else (spaceFactFailed, [call1, call2]))))"

section \<open>Example inputs\<close>

definition conv_at :: "string \<Rightarrow> real \<Rightarrow> conversation" where
  "conv_at cid t =
     \<lparr>agent_id = ''agent-1'', agent_name = ''Sasha'', conversation_id = cid,
      start_time_unix_secs = t, call_duration_secs = 60, message_count = 4,
      status = ''done'', call_successful = ''success'', transcript_summary = None,
      call_summary_title = Some ''Weekly sync''\<rparr>"

definition board :: "conversation list \<Rightarrow> view_mode \<Rightarrow> string \<Rightarrow> dashboard" where
  "board cs mode selector =
     \<lparr>conversations = cs, filteredConversations = cs, viewMode = mode, loading = False,
      error = None, searchTerm = [], statusFilter = ''all'', agentFilter = ''all'',
      successFilter = ''all'', dateFilter = selector\<rparr>"

definition demo_env :: env where
  "demo_env =
     \<lparr>GEMINI_API_KEY = Some ''g-key'', MAILGUN_API_KEY = Some ''m-key'',
      EMAIL_RECIPIENTS = Some ''team@example.com'', EMAIL_SUBJECT = None,
      NEXT_PUBLIC_BASE_URL = None\<rparr>"

definition deadline_transcript :: "turn list" where
  "deadline_transcript =
     [\<lparr>role = ''user'', message = ''What is the deadline?''\<rparr>,
      \<lparr>role = ''agent'', message = ''Next Friday.''\<rparr>]"

definition deadline_request :: "analyze_request option" where
  "deadline_request =
     Some \<lparr>transcript = Turns deadline_transcript,
           question = Some ''When is the deadline?''\<rparr>"

definition empty_summary_request :: "summary_request option" where
  "empty_summary_request = Some \<lparr>summary_transcript = Turns []\<rparr>"

text \<open>A 200 response whose body parses to \<open>v\<close>.\<close>

definition accepted :: "'a \<Rightarrow> 'a fetched" where
  "accepted v = Responded 200 (Inr v)"

text \<open>
  A provider reply with one candidate of one part with text \<open>t\<close>, and one with an
  empty candidate list.
\<close>

definition answering :: "string \<Rightarrow> gemini_data fetched" where
  "answering t =
     accepted (GeminiData (Some [Candidate (Some (Content (Some [Part (Some t)])))]))"

definition no_candidates :: "gemini_data fetched" where
  "no_candidates = accepted (GeminiData (Some []))"

section \<open>Substrings\<close>

lemma str_includes_iff: "str_includes s sub \<longleftrightarrow> (\<exists>p q. s = p @ sub @ q)"
proof (induction s)
  case Nil
  then show ?case by auto
next
  case (Cons c cs)
  show ?case
  proof
    assume "str_includes (c # cs) sub"
    then consider "prefix sub (c # cs)" | "str_includes cs sub" by (auto split: if_splits)
    then show "\<exists>p q. c # cs = p @ sub @ q"
    proof cases
      case 1
      then obtain q where "c # cs = sub @ q" by (auto simp: prefix_def)
      then have "c # cs = [] @ sub @ q" by simp
      then show ?thesis by blast
    next
      case 2
      with Cons obtain p q where "cs = p @ sub @ q" by blast
      then have "c # cs = (c # p) @ sub @ q" by simp
      then show ?thesis by blast
    qed
  next
    assume "\<exists>p q. c # cs = p @ sub @ q"
    then obtain p q where pq: "c # cs = p @ sub @ q" by blast
    show "str_includes (c # cs) sub"
    proof (cases p)
      case Nil
      with pq have "prefix sub (c # cs)" by (simp add: prefix_def)
      then show ?thesis by simp
    next
      case (Cons a p')
      with pq have "cs = p' @ sub @ q" by simp
      with Cons.IH have "str_includes cs sub" by blast
      then show ?thesis by simp
    qed
  qed
qed

lemma str_includes_mid: "str_includes (p @ sub @ q) sub"
  unfolding str_includes_iff by blast

lemma str_includes_wrap: "str_includes s sub \<Longrightarrow> str_includes (p @ s @ q) sub"
proof -
  assume "str_includes s sub"
  then obtain a b where "s = a @ sub @ b" unfolding str_includes_iff by blast
  then have "p @ s @ q = (p @ a) @ sub @ (b @ q)" by simp
  then show ?thesis unfolding str_includes_iff by blast
qed

lemma join_includes: "x \<in> set xs \<Longrightarrow> str_includes (join sep xs) x"
proof (induction sep xs rule: join.induct)
  case (1 sep)
  then show ?case by simp
next
  case (2 sep y)
  then have "join sep [y] = [] @ x @ []" by simp
  then show ?case by (metis str_includes_mid)
next
  case (3 sep y z zs)
  show ?case
  proof (cases "x = y")
    case True
    have "join sep (y # z # zs) = [] @ x @ (sep @ join sep (z # zs))" using True by simp
    then show ?thesis by (metis str_includes_mid)
  next
    case False
    with 3 have "str_includes (join sep (z # zs)) x" by simp
    then have "str_includes ((y @ sep) @ join sep (z # zs) @ []) x" by (rule str_includes_wrap)
    then show ?thesis by simp
  qed
qed

text \<open>Every turn of a transcript has its message, as it is, in the formatted text.\<close>

lemma formatTranscript_embeds:
  assumes "t \<in> set ts"
  shows "str_includes (formatTranscript ts) (message t)"
proof -
  let ?line = "toUpperCase (role t) @ '': '' @ message t"
  have "?line \<in> set (map (\<lambda>turn. toUpperCase (role turn) @ '': '' @ message turn) ts)"
    using assms by auto
  then have "str_includes (formatTranscript ts) ?line"
    unfolding formatTranscript_def by (rule join_includes)
  then obtain p q where "formatTranscript ts = p @ ?line @ q"
    unfolding str_includes_iff by blast
  then have "formatTranscript ts = (p @ toUpperCase (role t) @ '': '') @ message t @ q" by simp
  then show ?thesis by (metis str_includes_mid)
qed

lemma analyzePrompt_embeds:
  "t \<in> set ts \<Longrightarrow> str_includes (analyzePrompt ts q) (message t)"
  unfolding analyzePrompt_def
  by (intro str_includes_wrap formatTranscript_embeds)

section \<open>Fallback texts\<close>

lemma or_else_text: "t \<noteq> [] \<Longrightarrow> or_else (Some t) d = t"
  by (simp add: or_else_def truthy_def)

lemma or_else_fallback: "v = None \<or> v = Some [] \<Longrightarrow> or_else v d = d"
  by (auto simp: or_else_def truthy_def)

lemma firstText_no_candidate:
  "candidates data = None \<or> candidates data = Some [] \<Longrightarrow> firstText data = None"
  by (auto simp: firstText_def)


section \<open>The filter engine\<close>

lemma conv_at_start [simp]: "start_time_unix_secs (conv_at cid t) = t"
  by (simp add: conv_at_def)

lemma conv_at_id [simp]: "conversation_id (conv_at cid t) = cid"
  by (simp add: conv_at_def)

lemma dateStep_clock_free:
  "key \<notin> {''today'', ''week'', ''month''} \<Longrightarrow> dateStep a key xs = dateStep b key xs"
  by (simp add: dateStep_def cutoffOf_def)

lemma applyFilters_frame:
  "applyFilters n s = s\<lparr>filteredConversations := filteredConversations (applyFilters n s)\<rparr>"
  by (simp add: applyFilters_def)

text \<open>
  Claim C8 (filter identity). With view mode \<open>all\<close>, an empty search term and the
  status, agent, success and date-range selectors all \<open>all\<close>, \<open>applyFilters\<close>
  displays the conversation list itself, in the order given, whatever the clock reads.
\<close>

theorem applyFilters_identity:
  assumes "viewMode st = ViewAll" and "searchTerm st = []" and "statusFilter st = ''all''"
    and "agentFilter st = ''all''" and "successFilter st = ''all''"
    and "dateFilter st = ''all''"
  shows "filteredConversations (applyFilters nowMs st) = conversations st"
  using assms
  by (simp add: applyFilters_def dateStep_def successStep_def agentStep_def statusStep_def
      searchStep_def truthy_def)

theorem applyFilters_identity_witness:
  "filteredConversations
     (applyFilters 1700000000000
        ((board [conv_at ''b'' 20, conv_at ''a'' 10] ViewAll ''all'')
           \<lparr>filteredConversations := []\<rparr>))
   = [conv_at ''b'' 20, conv_at ''a'' 10]"
  using applyFilters_identity
    [of "(board [conv_at ''b'' 20, conv_at ''a'' 10] ViewAll ''all'')
           \<lparr>filteredConversations := []\<rparr>" 1700000000000]
  by (simp add: board_def)

text \<open>
  Claim C1 (determinism), as the code has it. The displayed list is a function of the
  conversation list, the filter criteria and the clock reading \<open>Date.now()\<close>: two
  invocations on the same list and criteria display the same list when they read the
  same clock value, or when the view mode is \<open>last\<close>, or when the date-range selector
  is none of \<open>today\<close>, \<open>week\<close>, \<open>month\<close>. Nothing else of the state is read (the two
  states may differ in every other field), and nothing but the displayed list is
  written.
\<close>

theorem applyFilters_deterministic:
  assumes "conversations s = conversations t" and "viewMode s = viewMode t"
    and "searchTerm s = searchTerm t" and "statusFilter s = statusFilter t"
    and "agentFilter s = agentFilter t" and "successFilter s = successFilter t"
    and "dateFilter s = dateFilter t"
    and "n = m \<or> viewMode s = ViewLast
         \<or> dateFilter s \<notin> {''today'', ''week'', ''month''}"
  shows "filteredConversations (applyFilters n s) = filteredConversations (applyFilters m t)
       \<and> applyFilters n s
           = s\<lparr>filteredConversations := filteredConversations (applyFilters n s)\<rparr>"
proof -
  consider "n = m" | "viewMode s = ViewLast"
    | "dateFilter s \<notin> {''today'', ''week'', ''month''}"
    using assms(8) by blast
  then have "filteredConversations (applyFilters n s)
           = filteredConversations (applyFilters m t)"
  proof cases
    case 1
    with assms(1-7) show ?thesis by (simp add: applyFilters_def)
  next
    case 2
    with assms(1,2) show ?thesis by (simp add: applyFilters_def)
  next
    case 3
    then have "dateStep (real_of_int n / 1000) (dateFilter s) xs
             = dateStep (real_of_int m / 1000) (dateFilter s) xs" for xs
      by (rule dateStep_clock_free)
    with assms(1-7) show ?thesis by (simp add: applyFilters_def)
  qed
  then show ?thesis using applyFilters_frame by blast
qed

theorem applyFilters_deterministic_witness:
  "filteredConversations
     (applyFilters 100000000 (board [conv_at ''a'' 50000] ViewAll ''all''))
   = filteredConversations
       (applyFilters 200000000
          ((board [conv_at ''a'' 50000] ViewAll ''all'')
             \<lparr>filteredConversations := [], loading := True\<rparr>))
   \<and> filteredConversations
       (applyFilters 100000000 (board [conv_at ''a'' 50000] ViewAll ''today''))
     = filteredConversations
         (applyFilters 100000000
            ((board [conv_at ''a'' 50000] ViewAll ''today'')
               \<lparr>filteredConversations := []\<rparr>))"
  using applyFilters_deterministic
    [of "board [conv_at ''a'' 50000] ViewAll ''all''"
        "(board [conv_at ''a'' 50000] ViewAll ''all'')
           \<lparr>filteredConversations := [], loading := True\<rparr>"
        100000000 200000000]
    applyFilters_deterministic
    [of "board [conv_at ''a'' 50000] ViewAll ''today''"
        "(board [conv_at ''a'' 50000] ViewAll ''today'')\<lparr>filteredConversations := []\<rparr>"
        100000000 100000000]
  by (simp add: board_def)

text \<open>
  Claim C1 as stated fails: the same list and the same criteria (date range \<open>today\<close>)
  display a conversation that started at second 50000 when the clock reads 100000 s,
  and do not display it when the clock reads 200000 s.
\<close>

theorem applyFilters_clock_counterexample:
  "filteredConversations
     (applyFilters 100000000 (board [conv_at ''a'' 50000] ViewAll ''today''))
   \<noteq> filteredConversations
       (applyFilters 200000000 (board [conv_at ''a'' 50000] ViewAll ''today''))"
  by (simp add: applyFilters_def board_def conv_at_def dateStep_def successStep_def
      agentStep_def statusStep_def searchStep_def truthy_def cutoffOf_def)

subsection \<open>The latest conversation\<close>

text \<open>
  \<open>fetchConversations\<close> stores the list latest first, with the elements it received,
  and \<open>deleteConversation\<close> keeps it so.
\<close>

lemma sortedConversations_latest_first:
  "sorted_wrt (\<lambda>a b. start_time_unix_secs b \<le> start_time_unix_secs a)
     (sortedConversations cs)"
proof -
  have "sorted (map (\<lambda>c. - start_time_unix_secs c) (sortedConversations cs))"
    unfolding sortedConversations_def by (rule sorted_sort_key)
  then show ?thesis by (simp add: sorted_map)
qed

lemma sortedConversations_same_elements: "mset (sortedConversations cs) = mset cs"
  by (simp add: sortedConversations_def)

lemma fetchConversations_latest_first:
  "ok code \<Longrightarrow>
   sorted_wrt (\<lambda>a b. start_time_unix_secs b \<le> start_time_unix_secs a)
     (conversations (fetchConversations (Responded code (Inr cs)) st))"
  by (simp add: fetchConversations_def sortedConversations_latest_first)

lemma withoutId_latest_first:
  "sorted_wrt (\<lambda>a b. start_time_unix_secs b \<le> start_time_unix_secs a) cs \<Longrightarrow>
   sorted_wrt (\<lambda>a b. start_time_unix_secs b \<le> start_time_unix_secs a) (withoutId x cs)"
  by (simp add: withoutId_def sorted_wrt_filter)

lemma first_is_latest:
  assumes "sorted_wrt (\<lambda>a b. start_time_unix_secs b \<le> start_time_unix_secs a) (c # cs)"
  shows "\<forall>d \<in> set (c # cs). start_time_unix_secs d \<le> start_time_unix_secs c"
  using assms by auto

lemma applyFilters_last:
  "viewMode st = ViewLast \<Longrightarrow>
   filteredConversations (applyFilters n st) = take 1 (conversations st)"
  by (simp add: applyFilters_def split: list.splits)

text \<open>
  In view mode \<open>last\<close> the displayed list is the first element of the conversation
  list, or empty when the list is, whatever the other criteria and the clock are; on a
  list ordered latest first that element has the maximum start time.
\<close>

lemma last_mode_on_sorted_list:
  assumes "viewMode st = ViewLast"
  shows "length (filteredConversations (applyFilters n st)) \<le> 1
       \<and> filteredConversations (applyFilters n st) = take 1 (conversations st)
       \<and> (\<forall>t m. conversations t = conversations st \<and> viewMode t = ViewLast \<longrightarrow>
             filteredConversations (applyFilters m t)
               = filteredConversations (applyFilters n st))
       \<and> (conversations st \<noteq> []
            \<and> sorted_wrt (\<lambda>a b. start_time_unix_secs b \<le> start_time_unix_secs a)
                 (conversations st) \<longrightarrow>
            (\<exists>c. filteredConversations (applyFilters n st) = [c]
               \<and> c \<in> set (conversations st)
               \<and> (\<forall>d \<in> set (conversations st).
                     start_time_unix_secs d \<le> start_time_unix_secs c)))"
proof -
  have shown: "filteredConversations (applyFilters n st) = take 1 (conversations st)"
    using assms by (rule applyFilters_last)
  have same: "filteredConversations (applyFilters m t)
      = filteredConversations (applyFilters n st)"
    if "conversations t = conversations st" "viewMode t = ViewLast" for t m
    using that shown by (simp add: applyFilters_last)
  have latest: "\<exists>c. filteredConversations (applyFilters n st) = [c]
      \<and> c \<in> set (conversations st)
      \<and> (\<forall>d \<in> set (conversations st). start_time_unix_secs d \<le> start_time_unix_secs c)"
    if "conversations st \<noteq> []"
      "sorted_wrt (\<lambda>a b. start_time_unix_secs b \<le> start_time_unix_secs a) (conversations st)"
  proof -
    from that(1) obtain c cs where list: "conversations st = c # cs"
      by (cases "conversations st") auto
    from that(2) have "\<forall>d \<in> set (c # cs). start_time_unix_secs d \<le> start_time_unix_secs c"
      unfolding list by (rule first_is_latest)
    then show ?thesis unfolding shown list by simp
  qed
  from shown have "length (filteredConversations (applyFilters n st)) \<le> 1" by simp
  with shown same latest show ?thesis by blast
qed

text \<open>
  Every event keeps the conversation list ordered latest first, so every state the
  component reaches from its initial state holds such a list.
\<close>

lemma step_latest_first:
  assumes "sorted_wrt (\<lambda>a b. start_time_unix_secs b \<le> start_time_unix_secs a)
             (conversations st)"
  shows "sorted_wrt (\<lambda>a b. start_time_unix_secs b \<le> start_time_unix_secs a)
           (conversations (step st ev))"
proof (cases ev)
  case (FetchConversations response)
  show ?thesis
  proof (cases response)
    case (Rejected msg)
    with FetchConversations assms show ?thesis by (simp add: fetchConversations_def)
  next
    case (Responded code payload)
    with FetchConversations assms show ?thesis
      by (cases payload)
        (simp_all add: fetchConversations_def sortedConversations_latest_first)
  qed
next
  case (DeleteConversation response conversationId)
  show ?thesis
  proof (cases response)
    case (Rejected msg)
    with DeleteConversation assms show ?thesis by (simp add: deleteConversation_def)
  next
    case (Responded code payload)
    with DeleteConversation assms show ?thesis
      by (simp add: deleteConversation_def withoutId_latest_first)
  qed
next
  case (ApplyFilters nowMs)
  with assms show ?thesis by (simp add: applyFilters_def)
next
  case ClearFilters
  with assms show ?thesis by (simp add: clearFilters_def)
qed (use assms in simp_all)

lemma foldl_step_latest_first:
  "sorted_wrt (\<lambda>a b. start_time_unix_secs b \<le> start_time_unix_secs a) (conversations st)
   \<Longrightarrow> sorted_wrt (\<lambda>a b. start_time_unix_secs b \<le> start_time_unix_secs a)
         (conversations (foldl step st events))"
proof (induction events arbitrary: st)
  case Nil
  then show ?case by simp
next
  case (Cons ev events)
  from Cons.prems have "sorted_wrt (\<lambda>a b. start_time_unix_secs b \<le> start_time_unix_secs a)
      (conversations (step st ev))"
    by (rule step_latest_first)
  then show ?case using Cons.IH by simp
qed

lemma run_latest_first:
  "sorted_wrt (\<lambda>a b. start_time_unix_secs b \<le> start_time_unix_secs a)
     (conversations (run events))"
  unfolding run_def by (rule foldl_step_latest_first) (simp add: initial_def)

text \<open>
  Claim C2 (latest mode). Let \<open>L\<close> be the conversation list of a state the component
  has reached from its initial state by any sequence of loads, deletes, filter runs
  and control changes. In view mode \<open>last\<close> the displayed list has at most one
  element; it is empty when \<open>L\<close> is, and otherwise it is an element of \<open>L\<close> with the
  maximum \<open>start_time_unix_secs\<close>. The other filter criteria and the clock are
  ignored: every state with the same list in this mode displays the same.
\<close>

theorem latest_mode_shows_latest:
  assumes "viewMode (run events) = ViewLast"
  shows "length (filteredConversations (applyFilters n (run events))) \<le> 1
       \<and> (conversations (run events) = [] \<longrightarrow>
            filteredConversations (applyFilters n (run events)) = [])
       \<and> (conversations (run events) \<noteq> [] \<longrightarrow>
            (\<exists>c. filteredConversations (applyFilters n (run events)) = [c]
               \<and> c \<in> set (conversations (run events))
               \<and> (\<forall>d \<in> set (conversations (run events)).
                     start_time_unix_secs d \<le> start_time_unix_secs c)))
       \<and> (\<forall>t m. conversations t = conversations (run events) \<and> viewMode t = ViewLast \<longrightarrow>
             filteredConversations (applyFilters m t)
               = filteredConversations (applyFilters n (run events)))"
proof -
  note on_list = last_mode_on_sorted_list [OF assms, of n]
  have empty: "filteredConversations (applyFilters n (run events)) = []"
    if "conversations (run events) = []"
    using on_list that by simp
  have latest: "\<exists>c. filteredConversations (applyFilters n (run events)) = [c]
      \<and> c \<in> set (conversations (run events))
      \<and> (\<forall>d \<in> set (conversations (run events)).
            start_time_unix_secs d \<le> start_time_unix_secs c)"
    if "conversations (run events) \<noteq> []"
    using on_list that run_latest_first [of events] by blast
  from on_list empty latest show ?thesis by blast
qed

theorem latest_mode_shows_latest_witness:
  "viewMode (run [FetchConversations
                    (accepted [conv_at ''a'' 10, conv_at ''c'' 30, conv_at ''b'' 20]),
                  SetDateFilter ''today'']) = ViewLast
   \<and> filteredConversations
       (applyFilters 1700000000000
          (run [FetchConversations
                  (accepted [conv_at ''a'' 10, conv_at ''c'' 30, conv_at ''b'' 20]),
                SetDateFilter ''today'']))
     = [conv_at ''c'' 30]
   \<and> (\<exists>c. filteredConversations
             (applyFilters 1700000000000
                (run [FetchConversations
                        (accepted [conv_at ''a'' 10, conv_at ''c'' 30, conv_at ''b'' 20]),
                      SetDateFilter ''today''])) = [c]
          \<and> 30 \<le> start_time_unix_secs c)"
proof -
  let ?events = "[FetchConversations
                    (accepted [conv_at ''a'' 10, conv_at ''c'' 30, conv_at ''b'' 20]),
                  SetDateFilter ''today'']"
  have list: "conversations (run ?events)
      = [conv_at ''c'' 30, conv_at ''b'' 20, conv_at ''a'' 10]"
    by (simp add: run_def initial_def accepted_def fetchConversations_def ok_def
        sortedConversations_def)
  have mode: "viewMode (run ?events) = ViewLast"
    by (simp add: run_def initial_def accepted_def fetchConversations_def ok_def)
  have nonempty: "conversations (run ?events) \<noteq> []" unfolding list by simp
  note fact = latest_mode_shows_latest [OF mode, of 1700000000000]
  from fact nonempty
  obtain c where shown: "filteredConversations (applyFilters 1700000000000 (run ?events)) = [c]"
    and member: "c \<in> set (conversations (run ?events))"
    and latest: "\<forall>d \<in> set (conversations (run ?events)).
        start_time_unix_secs d \<le> start_time_unix_secs c"
    by blast
  from latest have high: "30 \<le> start_time_unix_secs c" unfolding list by simp
  from member have "c = conv_at ''c'' 30 \<or> c = conv_at ''b'' 20 \<or> c = conv_at ''a'' 10"
    unfolding list by simp
  with high have "c = conv_at ''c'' 30" by auto
  with shown high mode show ?thesis by blast
qed

text \<open>After a successful load, view mode \<open>last\<close> displays a latest conversation.\<close>

lemma latest_after_fetch:
  assumes "ok code" and "viewMode st = ViewLast" and "cs \<noteq> []"
  shows "\<exists>c. filteredConversations
               (applyFilters n (fetchConversations (Responded code (Inr cs)) st)) = [c]
           \<and> c \<in> set cs
           \<and> (\<forall>d \<in> set cs. start_time_unix_secs d \<le> start_time_unix_secs c)"
proof -
  let ?st = "fetchConversations (Responded code (Inr cs)) st"
  have list: "conversations ?st = sortedConversations cs"
    and mode: "viewMode ?st = ViewLast"
    using assms(1,2) by (simp_all add: fetchConversations_def)
  have elems: "set (sortedConversations cs) = set cs"
    using sortedConversations_same_elements [of cs] by (metis set_mset_mset)
  with assms(3) obtain c rest where split: "sortedConversations cs = c # rest"
    by (cases "sortedConversations cs") auto
  have "\<forall>d \<in> set (c # rest). start_time_unix_secs d \<le> start_time_unix_secs c"
    using sortedConversations_latest_first [of cs] unfolding split by (rule first_is_latest)
  then have "\<forall>d \<in> set cs. start_time_unix_secs d \<le> start_time_unix_secs c"
    and "c \<in> set cs"
    using elems split by auto
  moreover have "filteredConversations (applyFilters n ?st) = [c]"
    using applyFilters_last [OF mode] list split by simp
  ultimately show ?thesis by blast
qed

subsection \<open>Deleting a conversation\<close>

lemma withoutId_unique:
  assumes "distinct (map conversation_id cs)" and "x \<in> set (map conversation_id cs)"
  shows "\<exists>ys c zs. cs = ys @ c # zs \<and> conversation_id c = x \<and> withoutId x cs = ys @ zs"
proof -
  from assms(2) obtain c where "c \<in> set cs" and cx: "conversation_id c = x" by auto
  then obtain ys zs where split: "cs = ys @ c # zs" by (auto dest: split_list)
  from assms(1) split
  have "x \<notin> conversation_id ` set ys" and "x \<notin> conversation_id ` set zs"
    unfolding cx [symmetric] by simp_all
  then have "\<forall>d \<in> set ys. conversation_id d \<noteq> x" "\<forall>d \<in> set zs. conversation_id d \<noteq> x"
    by blast+
  then have "filter (\<lambda>d. conversation_id d \<noteq> x) ys = ys"
    "filter (\<lambda>d. conversation_id d \<noteq> x) zs = zs"
    by (simp_all add: filter_id_conv)
  with split cx have "withoutId x cs = ys @ zs" by (simp add: withoutId_def)
  with split cx show ?thesis by blast
qed

lemma withoutId_absent: "x \<notin> set (map conversation_id cs) \<Longrightarrow> withoutId x cs = cs"
  by (auto simp: withoutId_def filter_id_conv)

lemma withoutId_subseq: "subseq (withoutId x cs) cs"
  by (simp add: withoutId_def)

lemma withoutId_set: "set (withoutId x cs) = {c \<in> set cs. conversation_id c \<noteq> x}"
  by (auto simp: withoutId_def)

lemma withoutId_length:
  "length (withoutId x cs) + length (filter (\<lambda>c. conversation_id c = x) cs) = length cs"
  unfolding withoutId_def by (induction cs) auto

lemma deleteConversation_ok:
  "ok code \<Longrightarrow>
   conversations (deleteConversation (Responded code payload) x st)
     = withoutId x (conversations st)
   \<and> filteredConversations (deleteConversation (Responded code payload) x st)
     = withoutId x (filteredConversations st)"
  by (simp add: deleteConversation_def)

lemma deleteConversation_failed:
  "\<not> ok code \<Longrightarrow> deleteConversation (Responded code payload) x st = st"
  "deleteConversation (Rejected msg) x st = st"
  by (simp_all add: deleteConversation_def)

text \<open>
  Claim C3 (delete). Let the conversations of \<open>L\<close> have pairwise distinct
  identifiers, as rows keyed by \<open>conversation_id\<close> do. After a successful DELETE of
  \<open>X\<close>, when \<open>L\<close> has a conversation with the identifier \<open>X\<close> exactly that one
  element is removed and the rest keep their relative order: \<open>L\<close> was \<open>ys @ c # zs\<close>
  with \<open>c\<close> the conversation \<open>X\<close>, and becomes \<open>ys @ zs\<close>, one element shorter.
  When no element of \<open>L\<close> has the identifier \<open>X\<close>, the list is unchanged. In both
  cases the new list is a subsequence of \<open>L\<close> holding exactly its elements other than
  \<open>X\<close>, and the displayed list is updated the same way.
\<close>

theorem deleteConversation_removes_by_id:
  assumes "ok code" and "distinct (map conversation_id (conversations st))"
  shows "(x \<in> set (map conversation_id (conversations st)) \<longrightarrow>
            (\<exists>ys c zs. conversations st = ys @ c # zs \<and> conversation_id c = x
               \<and> conversations (deleteConversation (Responded code payload) x st)
                   = ys @ zs)
            \<and> length (conversations (deleteConversation (Responded code payload) x st)) + 1
                = length (conversations st))
       \<and> (x \<notin> set (map conversation_id (conversations st)) \<longrightarrow>
            conversations (deleteConversation (Responded code payload) x st)
              = conversations st)
       \<and> subseq (conversations (deleteConversation (Responded code payload) x st))
           (conversations st)
       \<and> set (conversations (deleteConversation (Responded code payload) x st))
           = {c \<in> set (conversations st). conversation_id c \<noteq> x}
       \<and> filteredConversations (deleteConversation (Responded code payload) x st)
           = withoutId x (filteredConversations st)"
proof -
  have after: "conversations (deleteConversation (Responded code payload) x st)
      = withoutId x (conversations st)"
    and shown: "filteredConversations (deleteConversation (Responded code payload) x st)
      = withoutId x (filteredConversations st)"
    using deleteConversation_ok [OF assms(1)] by simp_all
  have one: "(\<exists>ys c zs. conversations st = ys @ c # zs \<and> conversation_id c = x
        \<and> withoutId x (conversations st) = ys @ zs)
      \<and> length (withoutId x (conversations st)) + 1 = length (conversations st)"
    if "x \<in> set (map conversation_id (conversations st))"
  proof -
    from withoutId_unique [OF assms(2) that]
    obtain ys c zs where split: "conversations st = ys @ c # zs"
      and cx: "conversation_id c = x"
      and rest: "withoutId x (conversations st) = ys @ zs"
      by blast
    from split rest have "length (withoutId x (conversations st)) + 1
        = length (conversations st)"
      by simp
    with split cx rest show ?thesis by blast
  qed
  show ?thesis
    unfolding after shown
    using one withoutId_absent withoutId_subseq withoutId_set
    by blast
qed

theorem deleteConversation_removes_by_id_witness:
  "ok 200
   \<and> distinct (map conversation_id
        (conversations
           (board [conv_at ''c'' 30, conv_at ''b'' 20, conv_at ''a'' 10] ViewAll ''all'')))
   \<and> conversations
       (deleteConversation (accepted ()) ''b''
          (board [conv_at ''c'' 30, conv_at ''b'' 20, conv_at ''a'' 10] ViewAll ''all''))
     = [conv_at ''c'' 30, conv_at ''a'' 10]
   \<and> conversations
       (deleteConversation (accepted ()) ''z''
          (board [conv_at ''c'' 30, conv_at ''b'' 20, conv_at ''a'' 10] ViewAll ''all''))
     = [conv_at ''c'' 30, conv_at ''b'' 20, conv_at ''a'' 10]"
proof -
  let ?cs = "[conv_at ''c'' 30, conv_at ''b'' 20, conv_at ''a'' 10]"
  let ?st = "board ?cs ViewAll ''all''"
  have fine: "ok 200" by (simp add: ok_def)
  have list: "conversations ?st = ?cs" by (simp add: board_def)
  have ids: "map conversation_id ?cs = [''c'', ''b'', ''a'']" by simp
  have keyed: "distinct (map conversation_id (conversations ?st))"
    unfolding list ids by simp
  note fact = deleteConversation_removes_by_id [OF fine keyed, of _ "Inr ()", unfolded list ids]
  from fact [of "''b''"]
  obtain ys c zs where split: "?cs = ys @ c # zs" and cb: "conversation_id c = ''b''"
    and gone: "conversations (deleteConversation (Responded 200 (Inr ())) ''b'' ?st) = ys @ zs"
    by auto
  from split cb have "ys = [conv_at ''c'' 30] \<and> zs = [conv_at ''a'' 10]"
    by (auto simp: Cons_eq_append_conv append_eq_Cons_conv)
  with gone have one: "conversations (deleteConversation (accepted ()) ''b'' ?st)
      = [conv_at ''c'' 30, conv_at ''a'' 10]"
    by (simp add: accepted_def)
  from fact [of "''z''"]
  have none: "conversations (deleteConversation (accepted ()) ''z'' ?st) = ?cs"
    by (simp add: accepted_def)
  from fine keyed one none show ?thesis by blast
qed

subsection \<open>The date-range windows\<close>

text \<open>
  Where the cutoff \<open>now - window\<close> is not zero, the date step keeps exactly the
  conversations that started at or after the cutoff: the boundary is inclusive, and
  the windows are 86400, 7 * 86400 and 30 * 86400 seconds. \<open>all\<close> imposes no bound.
\<close>

lemma dateStep_today:
  "now - 86400 \<noteq> 0 \<Longrightarrow>
   dateStep now ''today'' xs = filter (\<lambda>c. now - 86400 \<le> start_time_unix_secs c) xs"
  by (simp add: dateStep_def cutoffOf_def)




lemma dateStep_today_boundary:
  assumes "now \<noteq> 86400"
  shows "dateStep now ''today'' [conv_at a (now - 86400), conv_at b (now - 86401)]
       = [conv_at a (now - 86400)]"
  using assms by (simp add: dateStep_today)




section \<open>The text-generation endpoints\<close>

text \<open>
  Claim C6 (answer generation), as the code has it. For the transcript of the two
  turns "What is the deadline?" (user) and "Next Friday." (agent) and the question
  "When is the deadline?", with the API key configured, the handler issues one
  provider request whose prompt contains both messages as they are. When the provider
  answers, the returned answer is the text of the first part of its first candidate
  when that text is there and not empty; it is "No answer generated" when the
  provider returns no candidate, or a first candidate without text or with an empty
  text.
\<close>

theorem analyze_deadline_scenario:
  assumes "truthy_opt (GEMINI_API_KEY e)"
  shows "(\<exists>url prompt config.
            snd (analyze_POST e deadline_request provider) = [GeminiRequest url prompt config]
            \<and> str_includes prompt ''What is the deadline?''
            \<and> str_includes prompt ''Next Friday.'')
       \<and> (\<forall>data t. okJson provider = Some data \<and> firstText data = Some t \<and> t \<noteq> [] \<longrightarrow>
             fst (analyze_POST e deadline_request provider) = Reply 200 (AnswerBody t))
       \<and> (\<forall>data. okJson provider = Some data
               \<and> (candidates data = None \<or> candidates data = Some []
                   \<or> firstText data = None \<or> firstText data = Some []) \<longrightarrow>
             fst (analyze_POST e deadline_request provider)
               = Reply 200 (AnswerBody ''No answer generated''))"
proof -
  let ?prompt = "analyzePrompt deadline_transcript ''When is the deadline?''"
  have m1: "str_includes ?prompt ''What is the deadline?''"
    using analyzePrompt_embeds [of "\<lparr>role = ''user'', message = ''What is the deadline?''\<rparr>" deadline_transcript]
    by (simp add: deadline_transcript_def)
  have m2: "str_includes ?prompt ''Next Friday.''"
    using analyzePrompt_embeds [of "\<lparr>role = ''agent'', message = ''Next Friday.''\<rparr>" deadline_transcript]
    by (simp add: deadline_transcript_def)
  have calls: "\<exists>url config. snd (analyze_POST e deadline_request provider) = [GeminiRequest url ?prompt config]"
    using assms
    by (simp add: analyze_POST_def deadline_request_def interpolate_def truthy_opt_def truthy_def
        Let_def split: option.splits)
  have given: "fst (analyze_POST e deadline_request provider) = Reply 200 (AnswerBody t)"
    if "okJson provider = Some data" "firstText data = Some t" "t \<noteq> []" for data t
    using assms that
    by (simp add: analyze_POST_def deadline_request_def truthy_opt_def truthy_def Let_def or_else_text)
  have none: "fst (analyze_POST e deadline_request provider) = Reply 200 (AnswerBody ''No answer generated'')"
    if "okJson provider = Some data"
      "candidates data = None \<or> candidates data = Some [] \<or> firstText data = None \<or> firstText data = Some []"
    for data
  proof -
    from that(2) have "firstText data = None \<or> firstText data = Some []"
      using firstText_no_candidate by blast
    then have "or_else (firstText data) ''No answer generated'' = ''No answer generated''"
      by (rule or_else_fallback)
    with assms that(1) show ?thesis
      by (simp add: analyze_POST_def deadline_request_def truthy_opt_def truthy_def Let_def)
  qed
  from calls m1 m2 given none show ?thesis by blast
qed

theorem analyze_deadline_scenario_witness:
  "truthy_opt (GEMINI_API_KEY demo_env)
   \<and> (\<exists>url prompt config.
         snd (analyze_POST demo_env deadline_request (answering ''By next Friday.''))
           = [GeminiRequest url prompt config]
         \<and> str_includes prompt ''What is the deadline?''
         \<and> str_includes prompt ''Next Friday.'')
   \<and> fst (analyze_POST demo_env deadline_request (answering ''By next Friday.''))
       = Reply 200 (AnswerBody ''By next Friday.'')
   \<and> fst (analyze_POST demo_env deadline_request no_candidates)
       = Reply 200 (AnswerBody ''No answer generated'')"
proof -
  have key: "truthy_opt (GEMINI_API_KEY demo_env)"
    by (simp add: demo_env_def truthy_opt_def truthy_def)
  have parsed: "okJson (answering ''By next Friday.'')
      = Some (GeminiData (Some [Candidate (Some (Content (Some [Part (Some ''By next Friday.'')])))]))"
    by (simp add: answering_def accepted_def okJson_def ok_def)
  have first: "firstText (GeminiData (Some [Candidate (Some (Content (Some [Part (Some ''By next Friday.'')])))]))
      = Some ''By next Friday.''"
    by (simp add: firstText_def)
  have empty: "okJson no_candidates = Some (GeminiData (Some []))"
    by (simp add: no_candidates_def accepted_def okJson_def ok_def)
  from analyze_deadline_scenario [OF key, of "answering ''By next Friday.''"] parsed first
  have a: "(\<exists>url prompt config.
         snd (analyze_POST demo_env deadline_request (answering ''By next Friday.''))
           = [GeminiRequest url prompt config]
         \<and> str_includes prompt ''What is the deadline?''
         \<and> str_includes prompt ''Next Friday.'')"
    and b: "fst (analyze_POST demo_env deadline_request (answering ''By next Friday.''))
       = Reply 200 (AnswerBody ''By next Friday.'')"
    by simp_all
  from analyze_deadline_scenario [OF key, of no_candidates] empty
  have c: "fst (analyze_POST demo_env deadline_request no_candidates)
       = Reply 200 (AnswerBody ''No answer generated'')"
    by simp
  from key a b c show ?thesis by blast
qed

text \<open>
  Claim C6 as stated fails when the first candidate's text is the empty string: the
  answer is the fallback, not that text.
\<close>

theorem analyze_empty_text_counterexample:
  "fst (analyze_POST demo_env deadline_request (answering []))
     = Reply 200 (AnswerBody ''No answer generated'')
   \<and> okJson (answering [])
       = Some (GeminiData (Some [Candidate (Some (Content (Some [Part (Some [])])))]))
   \<and> firstText (GeminiData (Some [Candidate (Some (Content (Some [Part (Some [])])))]))
       = Some []"
  by (simp add: analyze_POST_def demo_env_def deadline_request_def answering_def
      accepted_def okJson_def ok_def firstText_def or_else_def truthy_opt_def truthy_def
      Let_def)

subsection \<open>Summaries\<close>

lemma summary_handler_empty_transcript:
  assumes "truthy_opt (GEMINI_API_KEY e)"
  shows "(\<exists>url config.
            snd (summary_handler promptOf e empty_summary_request provider)
              = [GeminiRequest url (promptOf []) config])
       \<and> (\<forall>data t. okJson provider = Some data \<and> firstText data = Some t \<and> t \<noteq> [] \<longrightarrow>
             fst (summary_handler promptOf e empty_summary_request provider)
               = Reply 200 (SummaryBody t))
       \<and> (\<forall>data. okJson provider = Some data
               \<and> (candidates data = None \<or> candidates data = Some []
                   \<or> firstText data = None \<or> firstText data = Some []) \<longrightarrow>
             fst (summary_handler promptOf e empty_summary_request provider)
               = Reply 200 (SummaryBody ''No summary generated''))"
proof -
  have calls: "\<exists>url config.
      snd (summary_handler promptOf e empty_summary_request provider)
        = [GeminiRequest url (promptOf []) config]"
    using assms
    by (simp add: summary_handler_def empty_summary_request_def Let_def split: option.splits)
  have given: "fst (summary_handler promptOf e empty_summary_request provider)
      = Reply 200 (SummaryBody t)"
    if "okJson provider = Some data" "firstText data = Some t" "t \<noteq> []" for data t
    using assms that
    by (simp add: summary_handler_def empty_summary_request_def Let_def or_else_text)
  have none: "fst (summary_handler promptOf e empty_summary_request provider)
      = Reply 200 (SummaryBody ''No summary generated'')"
    if "okJson provider = Some data"
      "candidates data = None \<or> candidates data = Some [] \<or> firstText data = None \<or> firstText data = Some []"
    for data
  proof -
    from that(2) have "firstText data = None \<or> firstText data = Some []"
      using firstText_no_candidate by blast
    then have "or_else (firstText data) ''No summary generated'' = ''No summary generated''"
      by (rule or_else_fallback)
    with assms that(1) show ?thesis
      by (simp add: summary_handler_def empty_summary_request_def Let_def)
  qed
  from calls given none show ?thesis by blast
qed

lemma summary_handler_empty_not_400:
  "fst (summary_handler promptOf e empty_summary_request provider)
     \<noteq> Reply 400 (ErrorBody ''Transcript is required'')"
  by (simp add: summary_handler_def empty_summary_request_def Let_def summaryFailed_def
      split: option.splits)


text \<open>
  Claim C7 (summary of an empty transcript), as the code has it. Given an empty
  transcript array, the handler never replies with the 400 "Transcript is required";
  with the API key configured it issues the provider request, with the prompt built
  from the empty transcript. When the provider answers, the result is the text of
  the first part of its first candidate when that text is there and not empty, and
  "No summary generated" when the candidate list is empty or missing, or the first
  candidate has no text or an empty one.
\<close>

theorem summary_of_empty_transcript:
  assumes "truthy_opt (GEMINI_API_KEY e)"
  shows "fst (generate_summary_POST e empty_summary_request provider)
           \<noteq> Reply 400 (ErrorBody ''Transcript is required'')
       \<and> (\<exists>url config.
            snd (generate_summary_POST e empty_summary_request provider)
              = [GeminiRequest url (takeawaysPrompt []) config])
       \<and> (\<forall>data t. okJson provider = Some data \<and> firstText data = Some t \<and> t \<noteq> [] \<longrightarrow>
             fst (generate_summary_POST e empty_summary_request provider)
               = Reply 200 (SummaryBody t))
       \<and> (\<forall>data. okJson provider = Some data
               \<and> (candidates data = None \<or> candidates data = Some []
                   \<or> firstText data = None \<or> firstText data = Some []) \<longrightarrow>
             fst (generate_summary_POST e empty_summary_request provider)
               = Reply 200 (SummaryBody ''No summary generated''))"
  unfolding generate_summary_POST_def
  using summary_handler_empty_transcript [OF assms] summary_handler_empty_not_400
  by blast


theorem summary_of_empty_transcript_witness:
  "truthy_opt (GEMINI_API_KEY demo_env)
   \<and> fst (generate_summary_POST demo_env empty_summary_request (answering ''1. Nothing.''))
       = Reply 200 (SummaryBody ''1. Nothing.'')
   \<and> fst (generate_summary_POST demo_env empty_summary_request no_candidates)
       = Reply 200 (SummaryBody ''No summary generated'')
   \<and> (\<exists>url config.
         snd (generate_summary_POST demo_env empty_summary_request no_candidates)
           = [GeminiRequest url (takeawaysPrompt []) config])"
proof -
  have key: "truthy_opt (GEMINI_API_KEY demo_env)"
    by (simp add: demo_env_def truthy_opt_def truthy_def)
  have parsed: "okJson (answering ''1. Nothing.'')
      = Some (GeminiData (Some [Candidate (Some (Content (Some [Part (Some ''1. Nothing.'')])))]))"
    by (simp add: answering_def accepted_def okJson_def ok_def)
  have first: "firstText (GeminiData (Some [Candidate (Some (Content (Some [Part (Some ''1. Nothing.'')])))]))
      = Some ''1. Nothing.''"
    by (simp add: firstText_def)
  have empty: "okJson no_candidates = Some (GeminiData (Some []))"
    by (simp add: no_candidates_def accepted_def okJson_def ok_def)
  from summary_of_empty_transcript [OF key, of "answering ''1. Nothing.''"] parsed first
  have a: "fst (generate_summary_POST demo_env empty_summary_request (answering ''1. Nothing.''))
       = Reply 200 (SummaryBody ''1. Nothing.'')"
    by simp
  from summary_of_empty_transcript [OF key, of no_candidates] empty
  have b: "fst (generate_summary_POST demo_env empty_summary_request no_candidates)
       = Reply 200 (SummaryBody ''No summary generated'')"
    and c: "\<exists>url config.
         snd (generate_summary_POST demo_env empty_summary_request no_candidates)
           = [GeminiRequest url (takeawaysPrompt []) config]"
    by simp_all
  from key a b c show ?thesis by blast
qed

text \<open>
  Claim C7 as stated fails when the first candidate's text is the empty string: the
  result is the fallback, not that text, although the candidate list is not empty.
\<close>

theorem summary_empty_text_counterexample:
  "fst (generate_summary_POST demo_env empty_summary_request (answering []))
     = Reply 200 (SummaryBody ''No summary generated'')
   \<and> okJson (answering [])
       = Some (GeminiData (Some [Candidate (Some (Content (Some [Part (Some [])])))]))
   \<and> candidates (GeminiData (Some [Candidate (Some (Content (Some [Part (Some [])])))]))
       \<noteq> Some []"
  by (simp add: generate_summary_POST_def summary_handler_def demo_env_def
      empty_summary_request_def answering_def accepted_def okJson_def ok_def firstText_def
      or_else_def truthy_opt_def truthy_def Let_def)

text \<open>The other copy of the handler behaves the same on an empty transcript.\<close>

lemma summary_sections_of_empty_transcript:
  assumes "truthy_opt (GEMINI_API_KEY e)"
  shows "fst (generate_summary_sections_POST e empty_summary_request provider)
           \<noteq> Reply 400 (ErrorBody ''Transcript is required'')
       \<and> (\<exists>url config.
            snd (generate_summary_sections_POST e empty_summary_request provider)
              = [GeminiRequest url (sectionsPrompt []) config])"
  unfolding generate_summary_sections_POST_def
  using summary_handler_empty_transcript [OF assms] summary_handler_empty_not_400
  by blast

subsection \<open>Templates\<close>

text \<open>
  Claim C10 (empty candidate list). With the API key configured and a provider that
  answers successfully with an empty candidate list, the gemini-template handler
  replies 500 "Failed to generate template" to every request with discussion
  content, whereas the analyze and generate-summary handlers reply 200 with their
  fallback texts to every request they accept.
\<close>

theorem template_fails_on_empty_candidates:
  assumes "truthy_opt (GEMINI_API_KEY e)" and "okJson provider = Some data"
    and "candidates data = Some []"
  shows "(truthy_opt (discussionContent treq) \<longrightarrow>
            fst (gemini_template_POST e (Some treq) provider)
              = Reply 500 (ErrorBody ''Failed to generate template''))
       \<and> (transcript areq = Turns ts \<and> truthy_opt (question areq) \<longrightarrow>
            fst (analyze_POST e (Some areq) provider)
              = Reply 200 (AnswerBody ''No answer generated''))
       \<and> (summary_transcript sreq = Turns ts' \<longrightarrow>
            fst (generate_summary_POST e (Some sreq) provider)
              = Reply 200 (SummaryBody ''No summary generated''))"
proof -
  from assms(3) have strict: "strictText data = None" by (simp add: strictText_def)
  from assms(3) have first: "firstText data = None" by (simp add: firstText_def)
  have template: "fst (gemini_template_POST e (Some treq) provider)
      = Reply 500 (ErrorBody ''Failed to generate template'')"
    if "truthy_opt (discussionContent treq)"
    using assms(1,2) that strict by (simp add: gemini_template_POST_def templateFailed_def Let_def)
  have analyze: "fst (analyze_POST e (Some areq) provider)
      = Reply 200 (AnswerBody ''No answer generated'')"
    if "transcript areq = Turns ts" "truthy_opt (question areq)"
    using assms(1,2) that first by (simp add: analyze_POST_def Let_def or_else_def)
  have summary: "fst (generate_summary_POST e (Some sreq) provider)
      = Reply 200 (SummaryBody ''No summary generated'')"
    if "summary_transcript sreq = Turns ts'"
    using assms(1,2) that first
    by (simp add: generate_summary_POST_def summary_handler_def Let_def or_else_def)
  from template analyze summary show ?thesis by blast
qed

theorem template_fails_on_empty_candidates_witness:
  "truthy_opt (GEMINI_API_KEY demo_env) \<and> okJson no_candidates = Some (GeminiData (Some []))
   \<and> fst (gemini_template_POST demo_env (Some \<lparr>discussionContent = Some ''Career goals''\<rparr>)
           no_candidates)
       = Reply 500 (ErrorBody ''Failed to generate template'')
   \<and> fst (analyze_POST demo_env deadline_request no_candidates)
       = Reply 200 (AnswerBody ''No answer generated'')
   \<and> fst (generate_summary_POST demo_env empty_summary_request no_candidates)
       = Reply 200 (SummaryBody ''No summary generated'')"
proof -
  have key: "truthy_opt (GEMINI_API_KEY demo_env)"
    by (simp add: demo_env_def truthy_opt_def truthy_def)
  have parsed: "okJson no_candidates = Some (GeminiData (Some []))"
    by (simp add: no_candidates_def accepted_def okJson_def ok_def)
  have empty: "candidates (GeminiData (Some [])) = Some []" by simp
  show ?thesis
    using key parsed
      template_fails_on_empty_candidates [OF key parsed empty,
        where treq = "\<lparr>discussionContent = Some ''Career goals''\<rparr>"
          and areq = "\<lparr>transcript = Turns deadline_transcript,
                       question = Some ''When is the deadline?''\<rparr>"
          and ts = deadline_transcript and sreq = "\<lparr>summary_transcript = Turns []\<rparr>"
          and ts' = "[]"]
    by (simp add: deadline_request_def empty_summary_request_def truthy_opt_def truthy_def)
qed

section \<open>The email endpoints\<close>

text \<open>
  Claim C5 (meeting-agenda email). When one of \<open>GEMINI_API_KEY\<close>,
  \<open>MAILGUN_API_KEY\<close>, \<open>EMAIL_RECIPIENTS\<close> is missing from the environment (or
  empty), the handler replies 500 "Required API keys or email configuration not
  found" and issues no outbound request. When the three are configured, the request
  has no \<open>recipient\<close>, and the conversation and the summary are obtained, the
  Mailgun request is addressed to the value of \<open>EMAIL_RECIPIENTS\<close>, and so is the
  \<open>recipient\<close> of the success reply.
\<close>

theorem agenda_email_config_and_recipient:
  "(\<not> truthy_opt (GEMINI_API_KEY e) \<or> \<not> truthy_opt (MAILGUN_API_KEY e)
       \<or> \<not> truthy_opt (EMAIL_RECIPIENTS e) \<longrightarrow>
      agenda_email_POST e today request conversationResponse summaryResponse mailgunResponse
        = (Reply 500 (ErrorBody ''Required API keys or email configuration not found''), []))
   \<and> (truthy_opt (GEMINI_API_KEY e) \<and> truthy_opt (MAILGUN_API_KEY e)
       \<and> EMAIL_RECIPIENTS e = Some configured \<and> configured \<noteq> []
       \<and> request = Some req \<and> recipient req = None
       \<and> okJson conversationResponse = Some details
       \<and> okJson summaryResponse = Some summaryData \<longrightarrow>
      (\<exists>call1 call2 url credentials fields.
          snd (agenda_email_POST e today request conversationResponse summaryResponse
                 mailgunResponse)
            = [call1, call2, MailgunRequest url credentials fields]
          \<and> form_to fields = configured)
      \<and> (okResponse mailgunResponse \<longrightarrow>
           (\<exists>summary.
              fst (agenda_email_POST e today request conversationResponse summaryResponse
                     mailgunResponse)
                = Reply 200 (AgendaSent summary configured))))"
  by (auto simp: agenda_email_POST_def configMissing_def Let_def or_else_def interpolate_def
      truthy_opt_def truthy_def)

theorem agenda_email_config_and_recipient_witness:
  "agenda_email_POST (demo_env\<lparr>MAILGUN_API_KEY := None\<rparr>) ''11/2/2026''
       (Some \<lparr>conversationId = Some ''conv_1'', recipient = None\<rparr>)
       (accepted (Turns deadline_transcript)) (accepted (Some ''1. Ship it.'')) (accepted ())
     = (Reply 500 (ErrorBody ''Required API keys or email configuration not found''), [])
   \<and> (\<exists>call1 call2 url credentials fields.
         snd (agenda_email_POST demo_env ''11/2/2026''
                (Some \<lparr>conversationId = Some ''conv_1'', recipient = None\<rparr>)
                (accepted (Turns deadline_transcript)) (accepted (Some ''1. Ship it.''))
                (accepted ()))
           = [call1, call2, MailgunRequest url credentials fields]
         \<and> form_to fields = ''team@example.com'')
   \<and> (\<exists>summary.
         fst (agenda_email_POST demo_env ''11/2/2026''
                (Some \<lparr>conversationId = Some ''conv_1'', recipient = None\<rparr>)
                (accepted (Turns deadline_transcript)) (accepted (Some ''1. Ship it.''))
                (accepted ()))
           = Reply 200 (AgendaSent summary ''team@example.com''))"
proof -
  let ?req = "\<lparr>conversationId = Some ''conv_1'', recipient = None\<rparr>"
  have missing: "\<not> truthy_opt (MAILGUN_API_KEY (demo_env\<lparr>MAILGUN_API_KEY := None\<rparr>))"
    by (simp add: truthy_opt_def)
  have configured: "truthy_opt (GEMINI_API_KEY demo_env)" "truthy_opt (MAILGUN_API_KEY demo_env)"
    "EMAIL_RECIPIENTS demo_env = Some ''team@example.com''"
    by (simp_all add: demo_env_def truthy_opt_def truthy_def)
  have parsed: "okJson (accepted (Turns deadline_transcript)) = Some (Turns deadline_transcript)"
    "okJson (accepted (Some ''1. Ship it.'')) = Some (Some ''1. Ship it.'')"
    "okResponse (accepted ())"
    by (simp_all add: accepted_def okJson_def okResponse_def ok_def)
  from missing
    agenda_email_config_and_recipient
      [where e = "demo_env\<lparr>MAILGUN_API_KEY := None\<rparr>" and today = "''11/2/2026''"
         and request = "Some ?req"
         and conversationResponse = "accepted (Turns deadline_transcript)"
         and summaryResponse = "accepted (Some ''1. Ship it.'')"
         and mailgunResponse = "accepted ()"]
  have a: "agenda_email_POST (demo_env\<lparr>MAILGUN_API_KEY := None\<rparr>) ''11/2/2026'' (Some ?req)
       (accepted (Turns deadline_transcript)) (accepted (Some ''1. Ship it.'')) (accepted ())
     = (Reply 500 (ErrorBody ''Required API keys or email configuration not found''), [])"
    by blast
  from configured parsed
    agenda_email_config_and_recipient
      [where e = demo_env and today = "''11/2/2026''" and request = "Some ?req"
         and req = ?req and configured = "''team@example.com''"
         and conversationResponse = "accepted (Turns deadline_transcript)"
         and details = "Turns deadline_transcript"
         and summaryResponse = "accepted (Some ''1. Ship it.'')"
         and summaryData = "Some ''1. Ship it.''"
         and mailgunResponse = "accepted ()"]
  have b: "(\<exists>call1 call2 url credentials fields.
         snd (agenda_email_POST demo_env ''11/2/2026'' (Some ?req)
                (accepted (Turns deadline_transcript)) (accepted (Some ''1. Ship it.''))
                (accepted ()))
           = [call1, call2, MailgunRequest url credentials fields]
         \<and> form_to fields = ''team@example.com'')"
    and c: "(\<exists>summary.
         fst (agenda_email_POST demo_env ''11/2/2026'' (Some ?req)
                (accepted (Turns deadline_transcript)) (accepted (Some ''1. Ship it.''))
                (accepted ()))
           = Reply 200 (AgendaSent summary ''team@example.com''))"
    by simp_all
  from a b c show ?thesis by blast
qed

text \<open>
  Claim C9 (space-fact email). The handler never reads the request's \<open>recipient\<close>:
  two requests with the same \<open>conversationId\<close> get the same reply and cause the same
  outbound requests. Every Mailgun request it issues is addressed to the value of
  \<open>EMAIL_RECIPIENTS\<close>, and so is the \<open>recipient\<close> of every success reply.
\<close>

theorem space_fact_email_ignores_recipient:
  "(conversationId reqA = conversationId reqB \<longrightarrow>
      space_fact_email_POST e timestamp (Some reqA) geminiResponse mailgunResponse
        = space_fact_email_POST e timestamp (Some reqB) geminiResponse mailgunResponse)
   \<and> (\<forall>url credentials fields.
         MailgunRequest url credentials fields
           \<in> set (snd (space_fact_email_POST e timestamp request geminiResponse mailgunResponse))
         \<longrightarrow> EMAIL_RECIPIENTS e = Some (form_to fields))
   \<and> (\<forall>spaceFact sentTo.
         fst (space_fact_email_POST e timestamp request geminiResponse mailgunResponse)
           = Reply 200 (SpaceFactSent spaceFact sentTo)
         \<longrightarrow> EMAIL_RECIPIENTS e = Some sentTo)"
  by (auto simp: space_fact_email_POST_def configMissing_def spaceFactFailed_def Let_def
      interpolate_def truthy_opt_def split: option.splits if_splits)

theorem space_fact_email_ignores_recipient_witness:
  "space_fact_email_POST demo_env ''11/2/2026, 9:00:00 AM''
       (Some \<lparr>conversationId = Some ''conv_1'', recipient = Some ''eve@example.com''\<rparr>)
       (answering ''Space is big.'') (accepted ())
     = space_fact_email_POST demo_env ''11/2/2026, 9:00:00 AM''
         (Some \<lparr>conversationId = Some ''conv_1'', recipient = None\<rparr>)
         (answering ''Space is big.'') (accepted ())
   \<and> fst (space_fact_email_POST demo_env ''11/2/2026, 9:00:00 AM''
         (Some \<lparr>conversationId = Some ''conv_1'', recipient = Some ''eve@example.com''\<rparr>)
         (answering ''Space is big.'') (accepted ()))
       = Reply 200 (SpaceFactSent ''Space is big.'' ''team@example.com'')
   \<and> EMAIL_RECIPIENTS demo_env = Some ''team@example.com''"
  using space_fact_email_ignores_recipient
    [where reqA = "\<lparr>conversationId = Some ''conv_1'', recipient = Some ''eve@example.com''\<rparr>"
       and reqB = "\<lparr>conversationId = Some ''conv_1'', recipient = None\<rparr>"
       and e = demo_env and timestamp = "''11/2/2026, 9:00:00 AM''"
       and geminiResponse = "answering ''Space is big.''" and mailgunResponse = "accepted ()"
       and request = "Some \<lparr>conversationId = Some ''conv_1'',
                             recipient = Some ''eve@example.com''\<rparr>"]
  by (simp add: space_fact_email_POST_def demo_env_def answering_def accepted_def okJson_def
      okResponse_def ok_def firstText_def or_else_def truthy_opt_def truthy_def Let_def
      interpolate_def)


end
